theory Spec2Isabelle
  imports Complex_Main
begin

section \<open>Python values used by \<^verbatim>\<open>api.py\<close>\<close>

subsection \<open>Exceptions\<close>

text \<open>
  Only subclasses of \<^verbatim>\<open>Exception\<close> are modelled, so \<^verbatim>\<open>except Exception\<close> catches
  every value of \<open>exn\<close>. \<open>ModuleNotFoundError\<close> is a subclass of \<open>ImportError\<close>.
  The string is what \<^verbatim>\<open>str(e)\<close> gives.
\<close>

datatype exn_class =
    FileNotFoundError | ModuleNotFoundError | ImportError | ValueError
  | AttributeError | IndexError | KeyError | TypeError | RuntimeError | OSError

datatype exn = Exn exn_class string

fun exn_class_of :: "exn \<Rightarrow> exn_class" where
  "exn_class_of (Exn c m) = c"

fun py_str_exn :: "exn \<Rightarrow> string" where
  "py_str_exn (Exn c m) = m"

definition isinstance_ImportError :: "exn \<Rightarrow> bool" where
  "isinstance_ImportError e =
     (exn_class_of e = ImportError \<or> exn_class_of e = ModuleNotFoundError)"

definition isinstance_FileNotFoundError :: "exn \<Rightarrow> bool" where
  "isinstance_FileNotFoundError e = (exn_class_of e = FileNotFoundError)"

subsection \<open>Strings: \<^verbatim>\<open>str.lower\<close>, \<^verbatim>\<open>int(str)\<close>, \<^verbatim>\<open>str(int)\<close>, \<^verbatim>\<open>os.path.join\<close>\<close>

text \<open>Strings are ASCII; \<^verbatim>\<open>str.lower\<close> maps \<open>A..Z\<close> to \<open>a..z\<close> and keeps the rest.\<close>

definition py_lower_char :: "char \<Rightarrow> char" where
  "py_lower_char c =
     (case map_of (zip ''ABCDEFGHIJKLMNOPQRSTUVWXYZ'' ''abcdefghijklmnopqrstuvwxyz'') c of
        None \<Rightarrow> c
      | Some l \<Rightarrow> l)"

definition py_lower :: "string \<Rightarrow> string" where
  "py_lower s = map py_lower_char s"

definition digit_of :: "char \<Rightarrow> int option" where
  "digit_of c = map_of (zip ''0123456789'' [0, 1, 2, 3, 4, 5, 6, 7, 8, 9]) c"

text \<open>
  The characters that \<^verbatim>\<open>int\<close> strips from both ends of an ASCII string: tab, line
  feed, vertical tab, form feed, carriage return and the space.
\<close>

definition py_isspace :: "char \<Rightarrow> bool" where
  "py_isspace c = (c \<in> set [CHR 0x09, CHR 0x0A, CHR 0x0B, CHR 0x0C, CHR 0x0D, CHR 0x20])"

definition py_strip :: "string \<Rightarrow> string" where
  "py_strip s = rev (dropWhile py_isspace (rev (dropWhile py_isspace s)))"

text \<open>
  The digits of a decimal literal after its first digit: a single underscore may stand
  between two digits. \<open>acc\<close> is the value read so far.
\<close>

fun parse_digits :: "int \<Rightarrow> string \<Rightarrow> int option" where
  "parse_digits acc [] = Some acc"
| "parse_digits acc [c] =
     (case digit_of c of None \<Rightarrow> None | Some v \<Rightarrow> Some (10 * acc + v))"
| "parse_digits acc (c # d # ds) =
     (if c = CHR ''_'' then
        (case digit_of d of
           None \<Rightarrow> None
         | Some v \<Rightarrow> parse_digits (10 * acc + v) ds)
      else
        (case digit_of c of
           None \<Rightarrow> None
         | Some v \<Rightarrow> parse_digits (10 * acc + v) (d # ds)))"

definition parse_unsigned :: "string \<Rightarrow> int option" where
  "parse_unsigned s =
     (case s of
        [] \<Rightarrow> None
      | c # cs \<Rightarrow> (case digit_of c of None \<Rightarrow> None | Some v \<Rightarrow> parse_digits v cs))"

text \<open>
  The interpreter refuses a decimal string of more than 4300 digits with a
  \<open>ValueError\<close>: 4300 is the default of \<^verbatim>\<open>sys.get_int_max_str_digits()\<close>, taken here
  as the setting the interpreter runs with.
\<close>

definition max_str_digits :: nat where
  "max_str_digits = 4300"

definition count_digits :: "string \<Rightarrow> nat" where
  "count_digits s = length (filter (\<lambda>c. digit_of c \<noteq> None) s)"

text \<open>
  \<^verbatim>\<open>int(s)\<close> in base 10 for an ASCII string \<open>s\<close>; \<open>None\<close> is the \<open>ValueError\<close>.
  (Digits and spaces beyond ASCII, which the interpreter also accepts, are outside
  the model: on them \<open>py_int\<close> is \<open>None\<close>.)
\<close>

definition py_int :: "string \<Rightarrow> int option" where
  "py_int s =
     (let t = py_strip s in
      if max_str_digits < count_digits t then None
      else
        (case t of
           [] \<Rightarrow> None
         | c # cs \<Rightarrow>
             if c = CHR ''-'' then map_option uminus (parse_unsigned cs)
             else if c = CHR ''+'' then parse_unsigned cs
             else parse_unsigned t))"

text \<open>\<^verbatim>\<open>str(n)\<close> for an integer.\<close>

definition digit_char :: "nat \<Rightarrow> char" where
  "digit_char d = ''0123456789'' ! (d mod 10)"

fun str_nat :: "nat \<Rightarrow> string" where
  "str_nat n = (if n < 10 then [digit_char n] else str_nat (n div 10) @ [digit_char n])"

declare str_nat.simps [simp del]

definition py_str_int :: "int \<Rightarrow> string" where
  "py_str_int i = (if i < 0 then CHR ''-'' # str_nat (nat (- i)) else str_nat (nat i))"

text \<open>
  \<^verbatim>\<open>repr(s)\<close> for an ASCII string: in double quotes when \<open>s\<close> holds a single quote and no
  double quote, in single quotes otherwise; the quote in use and the backslash are
  escaped, tab, line feed and carriage return are written \<^verbatim>\<open>\t\<close>, \<^verbatim>\<open>\n\<close>, \<^verbatim>\<open>\r\<close>, and
  every other control character as \<^verbatim>\<open>\x\<close> and two hexadecimal digits.
\<close>

definition hex_char :: "nat \<Rightarrow> char" where
  "hex_char d = ''0123456789abcdef'' ! (d mod 16)"

definition py_repr_char :: "char \<Rightarrow> char \<Rightarrow> string" where
  "py_repr_char quote c =
     (if c = quote \<or> c = CHR 0x5C then [CHR 0x5C, c]
      else if c = CHR 0x09 then [CHR 0x5C, CHR ''t'']
      else if c = CHR 0x0A then [CHR 0x5C, CHR ''n'']
      else if c = CHR 0x0D then [CHR 0x5C, CHR ''r'']
      else if (of_char c :: nat) < 32 \<or> c = CHR 0x7F
        then [CHR 0x5C, CHR ''x'', hex_char (of_char c div 16), hex_char (of_char c mod 16)]
      else [c])"

definition py_repr :: "string \<Rightarrow> string" where
  "py_repr s =
     (let quote = (if CHR 0x27 \<in> set s \<and> CHR 0x22 \<notin> set s then CHR 0x22 else CHR 0x27)
      in quote # concat (map (py_repr_char quote) s) @ [quote])"

text \<open>
  The \<open>ValueError\<close> of \<^verbatim>\<open>int(s)\<close>, for an \<open>s\<close> on which \<open>py_int\<close> is \<open>None\<close>. The
  interpreter (CPython 3.11) reads the run of digits and underscores after the sign;
  when that run is well formed and has more than 4300 digits it reports the limit, and
  in every other case an invalid literal, with \<^verbatim>\<open>repr(s)\<close> cut to 200 characters.
\<close>

definition literal_prefix :: "string \<Rightarrow> string" where
  "literal_prefix s =
     (let t = dropWhile py_isspace s;
          u = (case t of
                 [] \<Rightarrow> []
               | c # cs \<Rightarrow> if c = CHR ''-'' \<or> c = CHR ''+'' then cs else t)
      in takeWhile (\<lambda>c. digit_of c \<noteq> None \<or> c = CHR ''_'') u)"

definition exceeds_limit :: "string \<Rightarrow> bool" where
  "exceeds_limit s =
     (parse_unsigned (literal_prefix s) \<noteq> None
      \<and> max_str_digits < count_digits (literal_prefix s))"

definition int_ValueError :: "string \<Rightarrow> exn" where
  "int_ValueError s =
     Exn ValueError
       (if exceeds_limit s then
          ''Exceeds the limit (4300 digits) for integer string conversion: value has '' @
          str_nat (count_digits (literal_prefix s)) @
          '' digits; use sys.set_int_max_str_digits() to increase the limit''
        else ''invalid literal for int() with base 10: '' @ take 200 (py_repr s))"

text \<open>\<^verbatim>\<open>os.path.join(a, b)\<close> on a POSIX system.\<close>

definition path_join :: "string \<Rightarrow> string \<Rightarrow> string" where
  "path_join a b =
     (if b \<noteq> [] \<and> hd b = CHR ''/'' then b
      else if a = [] \<or> last a = CHR ''/'' then a @ b
      else a @ ''/'' @ b)"

subsection \<open>The process environment\<close>

type_synonym environ = "string \<rightharpoonup> string"

text \<open>\<^verbatim>\<open>os.environ.get(key, default)\<close> and \<^verbatim>\<open>os.environ.setdefault(key, value)\<close>.\<close>

definition environ_get :: "environ \<Rightarrow> string \<Rightarrow> string \<Rightarrow> string" where
  "environ_get env k d = (case env k of None \<Rightarrow> d | Some v \<Rightarrow> v)"

definition environ_setdefault :: "environ \<Rightarrow> string \<Rightarrow> string \<Rightarrow> environ" where
  "environ_setdefault env k v = (case env k of None \<Rightarrow> env(k \<mapsto> v) | Some u \<Rightarrow> env)"

section \<open>The runtime handle and its collaborators\<close>

text \<open>
  A \<open>T2MRuntime\<close> object as this module sees it: the keyword arguments it was built
  with, and \<open>object_id\<close>, its identity (two objects built with the same arguments are
  still two objects).
\<close>

record T2MRuntime =
  object_id :: nat
  config_path :: string
  ckpt_name :: string
  skip_text :: bool
  device_ids :: "nat list option"
  skip_model_loading :: bool
  disable_prompt_engineering :: bool
  prompt_engineering_host :: "string option"
  prompt_engineering_model_path :: "string option"

text \<open>
  \<open>pipe\<close> is the dictionary \<^verbatim>\<open>extract_models_for_mmgp()\<close> returns, as the list of its
  component names; the empty dictionary is falsy. \<open>kwargs\<close> is the keyword dictionary
  passed on to \<^verbatim>\<open>offload.profile\<close>.
\<close>

type_synonym pipe = "string list"

type_synonym kwargs = "(string \<times> (string \<times> int) list) list"

record generate_args =
  arg_text :: string
  arg_seeds_csv :: string
  arg_duration :: real
  arg_cfg_scale :: real
  arg_output_format :: string
  arg_output_dir :: string
  arg_original_text :: string

text \<open>
  Tensors. An array is its shape and its elements in row-major order; a well-formed one
  has as many elements as its shape says. A \<open>Tensor\<close> is a \<^verbatim>\<open>torch.Tensor\<close> (it has
  \<^verbatim>\<open>cpu\<close>, \<^verbatim>\<open>numpy\<close>, \<^verbatim>\<open>shape\<close> and \<^verbatim>\<open>tolist\<close>): the device it is on, the exception
  \<^verbatim>\<open>numpy()\<close> raises for it even in host memory if there is one (it requires grad, its
  dtype has no numpy counterpart, its layout is sparse), and its content. An \<open>Ndarray\<close>
  is a \<^verbatim>\<open>numpy.ndarray\<close> or, with shape \<open>()\<close>, a numpy scalar (\<^verbatim>\<open>shape\<close> and \<^verbatim>\<open>tolist\<close>).
  A \<open>PyList\<close> is a plain list of nested lists and numbers (none of the four
  attributes).
\<close>

datatype device = CPU | CUDA

datatype 'a array = Array (shape: "nat list") (elems: "'a list")

datatype 'a nested = Num 'a | Seq "'a nested list"

datatype 'a pyval =
  Tensor device "exn option" "'a array" | Ndarray "'a array" | PyList "'a nested list"

text \<open>
  What the module does not own: the file system, the \<open>T2MRuntime\<close> constructor (\<open>None\<close>
  when it returns, the exception when it raises), the import of \<^verbatim>\<open>mmgp\<close>, the
  extraction hook, \<^verbatim>\<open>offload.profile\<close>, \<^verbatim>\<open>tempfile.TemporaryDirectory\<close> and the
  runtime's own \<^verbatim>\<open>generate_motion\<close>.
\<close>

record 'a world =
  path_exists :: "string \<Rightarrow> bool"
  T2MRuntime_init :: "T2MRuntime \<Rightarrow> exn option"
  import_mmgp :: "exn option"
  extract_models_for_mmgp :: "T2MRuntime \<Rightarrow> exn + pipe"
  offload_profile :: "pipe \<Rightarrow> int \<Rightarrow> int \<Rightarrow> kwargs \<Rightarrow> exn option"
  TemporaryDirectory :: "string \<Rightarrow> exn + string"
  runtime_generate_motion :: "T2MRuntime \<Rightarrow> generate_args \<Rightarrow> exn + (string \<rightharpoonup> 'a pyval)"

text \<open>
  The calls a test double would count: each call of the constructor, each call of
  \<^verbatim>\<open>_apply_mmgp\<close> with the object it was given, each call of the extraction hook, of
  \<^verbatim>\<open>offload.profile\<close> and of the runtime's \<^verbatim>\<open>generate_motion\<close> with their arguments.
\<close>

datatype call =
    Call_T2MRuntime T2MRuntime
  | Call_apply_mmgp "T2MRuntime option"
  | Call_extract_models_for_mmgp T2MRuntime
  | Call_offload_profile pipe int int kwargs
  | Call_generate_motion T2MRuntime generate_args

section \<open>Module state\<close>

text \<open>
  The module's globals and the process state it touches: \<^verbatim>\<open>os.environ\<close>, the three
  paths computed at import, the singleton slot \<^verbatim>\<open>_runtime\<close>, what was printed, and
  the calls made so far (oldest first).
\<close>

record module_state =
  environ :: environ
  MODEL_PATH :: string
  CONFIG_PATH :: string
  CKPT_PATH :: string
  runtime :: "T2MRuntime option"
  stdout :: "string list"
  calls :: "call list"

definition MOTION_FPS :: int where
  "MOTION_FPS = 30"

definition print :: "string \<Rightarrow> module_state \<Rightarrow> module_state" where
  "print line s = s\<lparr>stdout := stdout s @ [line]\<rparr>"

definition record_call :: "call \<Rightarrow> module_state \<Rightarrow> module_state" where
  "record_call c s = s\<lparr>calls := calls s @ [c]\<rparr>"

fun is_construction :: "call \<Rightarrow> bool" where
  "is_construction (Call_T2MRuntime a) = True"
| "is_construction c = False"

fun is_application :: "call \<Rightarrow> bool" where
  "is_application (Call_apply_mmgp rt) = True"
| "is_application c = False"

definition constructions :: "module_state \<Rightarrow> nat" where
  "constructions s = length (filter is_construction (calls s))"

definition applications :: "module_state \<Rightarrow> nat" where
  "applications s = length (filter is_application (calls s))"

text \<open>Lines 25 to 38: what importing the module does to a process started with \<open>env\<close>.\<close>

definition module_import :: "environ \<Rightarrow> module_state" where
  "module_import env =
     (let env1 = environ_setdefault env ''QWEN_QUANTIZATION'' ''int4'';
          env2 = environ_setdefault env1 ''DISABLE_PROMPT_ENGINEERING'' ''True'';
          env3 = (if env2 ''USE_HF_MODELS'' = None then env2(''USE_HF_MODELS'' \<mapsto> ''1'') else env2);
          model_path = environ_get env3 ''MODEL_PATH'' ''ckpts/tencent/HY-Motion-1.0-Lite''
      in \<lparr>environ = env3,
          MODEL_PATH = model_path,
          CONFIG_PATH = path_join model_path ''config.yml'',
          CKPT_PATH = path_join model_path ''latest.ckpt'',
          runtime = None,
          stdout = [],
          calls = []\<rparr>)"

section \<open>\<^verbatim>\<open>_apply_mmgp\<close>\<close>

text \<open>
  \<^verbatim>\<open>runtime.extract_models_for_mmgp()\<close>: on \<^verbatim>\<open>None\<close> the attribute lookup raises.
\<close>

definition call_extract_models ::
  "'a world \<Rightarrow> T2MRuntime option \<Rightarrow> module_state \<Rightarrow> (exn + pipe) \<times> module_state" where
  "call_extract_models w rt s =
     (case rt of
        None \<Rightarrow>
          (Inl (Exn AttributeError
             (CHR 0x27 # ''NoneType'' @ CHR 0x27 # '' object has no attribute '' @
              CHR 0x27 # ''extract_models_for_mmgp'' @ [CHR 0x27])), s)
      | Some h \<Rightarrow> (extract_models_for_mmgp w h, record_call (Call_extract_models_for_mmgp h) s))"

text \<open>
  The body of the \<^verbatim>\<open>try\<close> (lines 47 to 61) for a positive profile: the exception that
  leaves it, if any, and the state at that point.
\<close>

definition apply_mmgp_try ::
  "'a world \<Rightarrow> T2MRuntime option \<Rightarrow> int \<Rightarrow> module_state \<Rightarrow> exn option \<times> module_state" where
  "apply_mmgp_try w rt profile s =
     (case import_mmgp w of
        Some e \<Rightarrow> (Some e, s)
      | None \<Rightarrow>
          (case call_extract_models w rt s of
             (Inl e, s1) \<Rightarrow> (Some e, s1)
           | (Inr pipe, s1) \<Rightarrow>
               if pipe = [] then
                 (None, print ''>>> [WARNING] No models extracted for MMGP offloading. Skipping.'' s1)
               else
                 let kwargs = (if profile \<noteq> 1 \<and> profile \<noteq> 3
                               then [(''budgets'', [(''*'', 4000)])] else [])
                 in (case py_int (environ_get (environ s1) ''MMGP_VERBOSE'' ''1'') of
                       None \<Rightarrow>
                         (Some (int_ValueError (environ_get (environ s1) ''MMGP_VERBOSE'' ''1'')), s1)
                     | Some verbose \<Rightarrow>
                         let s2 = print (''>>> Applying MMGP offload profile '' @
                                         py_str_int profile @ ''...'') s1;
                             s3 = record_call (Call_offload_profile pipe profile verbose kwargs) s2
                         in (case offload_profile w pipe profile verbose kwargs of
                               Some e \<Rightarrow> (Some e, s3)
                             | None \<Rightarrow>
                                 (None, print (''>>> MMGP offloading active (profile '' @
                                               py_str_int profile @ '').'') s3)))))"

text \<open>The two handlers (lines 62 to 65): both print and swallow.\<close>

definition apply_mmgp_except :: "exn \<Rightarrow> module_state \<Rightarrow> module_state" where
  "apply_mmgp_except e s =
     (if isinstance_ImportError e then
        print ''>>> [INFO] mmgp not installed. Skipping dynamic offloading.'' s
      else print (''>>> [ERROR] Failed to apply MMGP offloading: '' @ py_str_exn e) s)"

text \<open>
  \<^verbatim>\<open>_apply_mmgp(runtime)\<close>: \<open>None\<close> when it returns, the exception when one leaves it.
  Line 43 reads and parses the profile before the \<^verbatim>\<open>try\<close> is entered.
\<close>

definition apply_mmgp ::
  "'a world \<Rightarrow> T2MRuntime option \<Rightarrow> module_state \<Rightarrow> exn option \<times> module_state" where
  "apply_mmgp w rt s =
     (case py_int (environ_get (environ s) ''MMGP_PROFILE'' ''1'') of
        None \<Rightarrow> (Some (int_ValueError (environ_get (environ s) ''MMGP_PROFILE'' ''1'')), s)
      | Some profile \<Rightarrow>
          if profile \<le> 0 then (None, s)
          else
            (case apply_mmgp_try w rt profile s of
               (None, s1) \<Rightarrow> (None, s1)
             | (Some e, s1) \<Rightarrow> (None, apply_mmgp_except e s1)))"

section \<open>\<^verbatim>\<open>get_runtime\<close>\<close>

text \<open>
  The object the constructor call of lines 74 to 83 makes: its keyword arguments, and
  as identity the number of constructor calls before it.
\<close>

definition T2MRuntime_args :: "'a world \<Rightarrow> module_state \<Rightarrow> T2MRuntime" where
  "T2MRuntime_args w s =
     (let skip_loading = \<not> path_exists w (CKPT_PATH s)
      in \<lparr>object_id = constructions s,
          config_path = CONFIG_PATH s,
          ckpt_name = CKPT_PATH s,
          skip_text = False,
          device_ids = None,
          skip_model_loading = skip_loading,
          disable_prompt_engineering =
            (py_lower (environ_get (environ s) ''DISABLE_PROMPT_ENGINEERING'' ''true'') = ''true''),
          prompt_engineering_host = None,
          prompt_engineering_model_path = None\<rparr>)"

text \<open>
  \<^verbatim>\<open>get_runtime()\<close>: \<open>Inl\<close> the exception it raises, \<open>Inr\<close> what it returns (the content
  of the slot). The slot is assigned on line 74 as soon as the constructor returns,
  before \<^verbatim>\<open>_apply_mmgp\<close> runs.
\<close>

definition get_runtime ::
  "'a world \<Rightarrow> module_state \<Rightarrow> (exn + T2MRuntime option) \<times> module_state" where
  "get_runtime w s =
     (if runtime s = None then
        if \<not> path_exists w (CONFIG_PATH s) then
          (Inl (Exn FileNotFoundError (''Config not found: '' @ CONFIG_PATH s)), s)
        else
          let args = T2MRuntime_args w s;
              s1 = record_call (Call_T2MRuntime args) s
          in (case T2MRuntime_init w args of
                Some e \<Rightarrow> (Inl e, s1)
              | None \<Rightarrow>
                  let s2 = s1\<lparr>runtime := Some args\<rparr>
                  in (case apply_mmgp w (runtime s2) (record_call (Call_apply_mmgp (runtime s2)) s2) of
                        (Some e, s3) \<Rightarrow> (Inl e, s3)
                      | (None, s3) \<Rightarrow> (Inr (runtime s3), s3)))
      else (Inr (runtime s), s))"

section \<open>Sequences of calls, and calls that overlap\<close>

text \<open>Calls made one after the other, each on the state the one before left.\<close>

fun run_each :: "('x \<Rightarrow> 's \<Rightarrow> 'r \<times> 's) \<Rightarrow> 'x list \<Rightarrow> 's \<Rightarrow> 'r list \<times> 's" where
  "run_each f [] s = ([], s)"
| "run_each f (x # xs) s =
     (case f x s of (r, s1) \<Rightarrow> (case run_each f xs s1 of (rs, s2) \<Rightarrow> (r # rs, s2)))"

text \<open>
  The endpoint is a plain \<^verbatim>\<open>def\<close>, so the framework runs it on worker threads and
  two calls of \<^verbatim>\<open>get_runtime\<close> can overlap. A caller inside \<^verbatim>\<open>get_runtime\<close> is at one
  of its statements (named by source line) or has left it. \<open>thread_step\<close> runs the
  statement the caller is at: \<^verbatim>\<open>get_runtime\<close> cut at its statement boundaries, every
  read of \<^verbatim>\<open>_runtime\<close> being a read of the shared slot at that moment.
\<close>

datatype pc = L70 | L71 | L73 | L84 | L85 | Returned "T2MRuntime option" | Raised exn

definition thread_step :: "'a world \<Rightarrow> pc \<Rightarrow> module_state \<Rightarrow> pc \<times> module_state" where
  "thread_step w pc s =
     (case pc of
        L70 \<Rightarrow> if runtime s = None then (L71, s) else (L85, s)
      | L71 \<Rightarrow>
          if \<not> path_exists w (CONFIG_PATH s)
          then (Raised (Exn FileNotFoundError (''Config not found: '' @ CONFIG_PATH s)), s)
          else (L73, s)
      | L73 \<Rightarrow>
          let args = T2MRuntime_args w s;
              s1 = record_call (Call_T2MRuntime args) s
          in (case T2MRuntime_init w args of
                Some e \<Rightarrow> (Raised e, s1)
              | None \<Rightarrow> (L84, s1\<lparr>runtime := Some args\<rparr>))
      | L84 \<Rightarrow>
          (case apply_mmgp w (runtime s) (record_call (Call_apply_mmgp (runtime s)) s) of
             (Some e, s1) \<Rightarrow> (Raised e, s1)
           | (None, s1) \<Rightarrow> (L85, s1))
      | L85 \<Rightarrow> (Returned (runtime s), s)
      | Returned r \<Rightarrow> (Returned r, s)
      | Raised e \<Rightarrow> (Raised e, s))"

text \<open>
  A schedule names, step by step, the caller that runs its next statement.
\<close>

fun run_schedule ::
  "'a world \<Rightarrow> nat list \<Rightarrow> pc list \<Rightarrow> module_state \<Rightarrow> pc list \<times> module_state" where
  "run_schedule w [] pcs s = (pcs, s)"
| "run_schedule w (i # sched) pcs s =
     (if i < length pcs then
        (case thread_step w (pcs ! i) s of
           (pc', s') \<Rightarrow> run_schedule w sched (pcs[i := pc']) s')
      else run_schedule w sched pcs s)"

fun finished :: "pc \<Rightarrow> bool" where
  "finished (Returned r) = True"
| "finished (Raised e) = True"
| "finished p = False"

text \<open>
  One caller run alone: five statements take it from line 70 out of the function.
\<close>

definition run_alone :: "'a world \<Rightarrow> module_state \<Rightarrow> pc \<times> module_state" where
  "run_alone w s =
     (case thread_step w L70 s of (p1, s1) \<Rightarrow>
      case thread_step w p1 s1 of (p2, s2) \<Rightarrow>
      case thread_step w p2 s2 of (p3, s3) \<Rightarrow>
      case thread_step w p3 s3 of (p4, s4) \<Rightarrow> thread_step w p4 s4)"

section \<open>\<^verbatim>\<open>_tensor_to_list\<close>\<close>

definition wf_array :: "'a array \<Rightarrow> bool" where
  "wf_array a = (length (elems a) = prod_list (shape a))"

text \<open>
  \<^verbatim>\<open>tolist\<close> of an array with the given shape and elements: a scalar for shape \<open>()\<close>,
  else the list of the conversions of its slices along the first axis. (A well-formed
  array of shape \<open>()\<close> has exactly one element.)
\<close>

fun tolist :: "nat list \<Rightarrow> 'a list \<Rightarrow> 'a nested" where
  "tolist [] xs = Num (hd xs)"
| "tolist (d # ds) xs =
     Seq (map (\<lambda>i. tolist ds (take (prod_list ds) (drop (i * prod_list ds) xs))) [0..<d])"

text \<open>
  The method calls \<^verbatim>\<open>_tensor_to_list\<close> makes on its argument, each with the object it
  is made on.
\<close>

datatype 'a method_call =
    Call_cpu "'a pyval"
  | Call_numpy "'a pyval"
  | Call_getitem0 "'a pyval"
  | Call_tolist "'a pyval"

definition hasattr_cpu :: "'a pyval \<Rightarrow> bool" where
  "hasattr_cpu x = (case x of Tensor d r a \<Rightarrow> True | Ndarray a \<Rightarrow> False | PyList l \<Rightarrow> False)"

definition hasattr_numpy :: "'a pyval \<Rightarrow> bool" where
  "hasattr_numpy x = (case x of Tensor d r a \<Rightarrow> True | Ndarray a \<Rightarrow> False | PyList l \<Rightarrow> False)"

text \<open>\<^verbatim>\<open>x.shape\<close> where the attribute exists.\<close>

definition py_shape :: "'a pyval \<Rightarrow> nat list option" where
  "py_shape x =
     (case x of Tensor d r a \<Rightarrow> Some (shape a) | Ndarray a \<Rightarrow> Some (shape a) | PyList l \<Rightarrow> None)"

definition no_attribute :: "string \<Rightarrow> string \<Rightarrow> exn" where
  "no_attribute ty attr =
     Exn AttributeError
       (CHR 0x27 # ty @ CHR 0x27 # '' object has no attribute '' @ CHR 0x27 # attr @ [CHR 0x27])"

definition py_type_name :: "'a pyval \<Rightarrow> string" where
  "py_type_name x =
     (case x of Tensor d r a \<Rightarrow> ''Tensor'' | Ndarray a \<Rightarrow> ''numpy.ndarray'' | PyList l \<Rightarrow> ''list'')"

text \<open>\<^verbatim>\<open>x.cpu()\<close>: the same tensor in host memory.\<close>

definition py_cpu :: "'a pyval \<Rightarrow> exn + 'a pyval" where
  "py_cpu x =
     (case x of
        Tensor d r a \<Rightarrow> Inr (Tensor CPU r a)
      | _ \<Rightarrow> Inl (no_attribute (py_type_name x) ''cpu''))"

text \<open>
  \<^verbatim>\<open>x.numpy()\<close>: refused for a tensor that is not in host memory, and for a tensor
  in host memory that numpy cannot share.
\<close>

definition py_numpy :: "'a pyval \<Rightarrow> exn + 'a pyval" where
  "py_numpy x =
     (case x of
        Tensor d r a \<Rightarrow>
          (if d \<noteq> CPU then
             Inl (Exn TypeError
               (''can'' @ CHR 0x27 # ''t convert cuda:0 device type tensor to numpy. '' @
                ''Use Tensor.cpu() to copy the tensor to host memory first.''))
           else (case r of Some e \<Rightarrow> Inl e | None \<Rightarrow> Inr (Ndarray a)))
      | _ \<Rightarrow> Inl (no_attribute (py_type_name x) ''numpy''))"

text \<open>\<^verbatim>\<open>x.tolist()\<close>: a plain list has no such method.\<close>

definition py_tolist :: "'a pyval \<Rightarrow> exn + 'a nested" where
  "py_tolist x =
     (case x of
        Tensor d r a \<Rightarrow> Inr (tolist (shape a) (elems a))
      | Ndarray a \<Rightarrow> Inr (tolist (shape a) (elems a))
      | PyList l \<Rightarrow> Inl (no_attribute (py_type_name x) ''tolist''))"

text \<open>
  Lines 95 and 96. A tensor and an array have a \<^verbatim>\<open>shape\<close>, a list has none. With at
  least one axis, \<^verbatim>\<open>x[0]\<close> is evaluated: the first slice along axis 0, with one axis
  less, or an \<open>IndexError\<close> when that axis is empty.
\<close>

definition select_batch0 :: "'a pyval \<Rightarrow> 'a method_call list \<times> (exn + 'a pyval)" where
  "select_batch0 x =
     (case x of
        Tensor d r a \<Rightarrow>
          (case shape a of
             [] \<Rightarrow> ([], Inr x)
           | n # sh \<Rightarrow>
               ([Call_getitem0 x],
                if n = 0
                then Inl (Exn IndexError ''index 0 is out of bounds for dimension 0 with size 0'')
                else Inr (Tensor d r (Array sh (take (prod_list sh) (elems a))))))
      | Ndarray a \<Rightarrow>
          (case shape a of
             [] \<Rightarrow> ([], Inr x)
           | n # sh \<Rightarrow>
               ([Call_getitem0 x],
                if n = 0
                then Inl (Exn IndexError ''index 0 is out of bounds for axis 0 with size 0'')
                else Inr (Ndarray (Array sh (take (prod_list sh) (elems a))))))
      | PyList l \<Rightarrow> ([], Inr x))"

text \<open>
  Lines 88 to 97, statement by statement: the method calls made, in order, and the
  exception raised or the value returned.
\<close>

definition tensor_to_list_calls :: "'a pyval \<Rightarrow> 'a method_call list \<times> (exn + 'a nested)" where
  "tensor_to_list_calls x =
     (case (if hasattr_cpu x then ([Call_cpu x], py_cpu x) else ([], Inr x)) of
        (c1, Inl e) \<Rightarrow> (c1, Inl e)
      | (c1, Inr x1) \<Rightarrow>
          (case (if hasattr_numpy x1 then ([Call_numpy x1], py_numpy x1) else ([], Inr x1)) of
             (c2, Inl e) \<Rightarrow> (c1 @ c2, Inl e)
           | (c2, Inr x2) \<Rightarrow>
               (case select_batch0 x2 of
                  (c3, Inl e) \<Rightarrow> (c1 @ c2 @ c3, Inl e)
                | (c3, Inr x3) \<Rightarrow> (c1 @ c2 @ c3 @ [Call_tolist x3], py_tolist x3))))"

definition tensor_to_list :: "'a pyval \<Rightarrow> exn + 'a nested" where
  "tensor_to_list x = snd (tensor_to_list_calls x)"

section \<open>The endpoint \<^verbatim>\<open>POST /v1/motion\<close>\<close>

record MotionRequest =
  req_text :: string
  req_duration :: real
  req_seed :: int
  req_cfg_scale :: real

record 'a motion =
  keypoints3d :: "'a nested"
  rot6d :: "'a nested"
  transl :: "'a nested"
  root_rotations_mat :: "'a nested"
  num_frames :: int
  fps :: int

record meta =
  meta_text :: string
  meta_duration :: real
  meta_seed :: int

record 'a response =
  resp_motion :: "'a motion"
  resp_meta :: meta

text \<open>
  How a call of the endpoint can fail: an \<open>HTTPException\<close> with its status code and
  detail, or an exception nothing in the function catches.
\<close>

datatype failure = HTTPException nat string | Unhandled exn

definition dict_getitem :: "(string \<rightharpoonup> 'v) \<Rightarrow> string \<Rightarrow> exn + 'v" where
  "dict_getitem d k =
     (case d k of None \<Rightarrow> Inl (Exn KeyError (CHR 0x27 # k @ [CHR 0x27])) | Some v \<Rightarrow> Inr v)"

text \<open>\<^verbatim>\<open>x.shape[i]\<close> for a non-negative \<open>i\<close>.\<close>

definition shape_getitem :: "'a pyval \<Rightarrow> nat \<Rightarrow> exn + nat" where
  "shape_getitem x i =
     (case py_shape x of
        None \<Rightarrow> Inl (no_attribute (py_type_name x) ''shape'')
      | Some sh \<Rightarrow>
          if i < length sh then Inr (sh ! i) else Inl (Exn IndexError ''tuple index out of range''))"

text \<open>An exception raised by a statement ends the statements after it.\<close>

definition and_then :: "exn + 'b \<Rightarrow> ('b \<Rightarrow> exn + 'c) \<Rightarrow> exn + 'c" where
  "and_then m f = (case m of Inl e \<Rightarrow> Inl e | Inr v \<Rightarrow> f v)"

text \<open>Lines 150 to 170: the response built from the model's output dictionary.\<close>

definition motion_response ::
  "MotionRequest \<Rightarrow> (string \<rightharpoonup> 'a pyval) \<Rightarrow> exn + 'a response" where
  "motion_response req model_output =
     and_then (dict_getitem model_output ''keypoints3d'') (\<lambda>kp.
     and_then (dict_getitem model_output ''rot6d'') (\<lambda>r6.
     and_then (dict_getitem model_output ''transl'') (\<lambda>tr.
     and_then (dict_getitem model_output ''root_rotations_mat'') (\<lambda>rr.
     and_then (shape_getitem kp 1) (\<lambda>n.
     and_then (tensor_to_list kp) (\<lambda>kp_list.
     and_then (tensor_to_list r6) (\<lambda>r6_list.
     and_then (tensor_to_list tr) (\<lambda>tr_list.
     and_then (tensor_to_list rr) (\<lambda>rr_list.
       Inr \<lparr>resp_motion =
              \<lparr>keypoints3d = kp_list, rot6d = r6_list, transl = tr_list,
               root_rotations_mat = rr_list, num_frames = int n, fps = MOTION_FPS\<rparr>,
            resp_meta =
              \<lparr>meta_text = req_text req, meta_duration = req_duration req,
               meta_seed = req_seed req\<rparr>\<rparr>)))))))))"

text \<open>\<^verbatim>\<open>runtime.generate_motion(...)\<close> on what \<^verbatim>\<open>get_runtime\<close> returned.\<close>

definition call_generate_motion ::
  "'a world \<Rightarrow> T2MRuntime option \<Rightarrow> generate_args \<Rightarrow> module_state
     \<Rightarrow> (exn + (string \<rightharpoonup> 'a pyval)) \<times> module_state" where
  "call_generate_motion w rt args s =
     (case rt of
        None \<Rightarrow> (Inl (no_attribute ''NoneType'' ''generate_motion''), s)
      | Some h \<Rightarrow> (runtime_generate_motion w h args, record_call (Call_generate_motion h args) s))"

text \<open>
  Lines 127 to 170. The removal of the temporary directory at the end of the
  \<^verbatim>\<open>with\<close> block is not part of the state.
\<close>

definition generate_motion ::
  "'a world \<Rightarrow> MotionRequest \<Rightarrow> module_state \<Rightarrow> (failure + 'a response) \<times> module_state" where
  "generate_motion w req s =
     (case get_runtime w s of
        (Inl e, s1) \<Rightarrow>
          if isinstance_FileNotFoundError e
          then (Inl (HTTPException 503 (''Model not available: '' @ py_str_exn e)), s1)
          else (Inl (HTTPException 503 (''Service unavailable: '' @ py_str_exn e)), s1)
      | (Inr rt, s1) \<Rightarrow>
          (case TemporaryDirectory w ''hymotion_'' of
             Inl e \<Rightarrow> (Inl (Unhandled e), s1)
           | Inr tmpdir \<Rightarrow>
               (case call_generate_motion w rt
                       \<lparr>arg_text = req_text req,
                        arg_seeds_csv = py_str_int (req_seed req),
                        arg_duration = req_duration req,
                        arg_cfg_scale = req_cfg_scale req,
                        arg_output_format = ''dict'',
                        arg_output_dir = tmpdir,
                        arg_original_text = req_text req\<rparr> s1 of
                  (Inl e, s2) \<Rightarrow>
                    (Inl (HTTPException 503 (''Generation failed: '' @ py_str_exn e)), s2)
                | (Inr model_output, s2) \<Rightarrow>
                    (case motion_response req model_output of
                       Inl e \<Rightarrow> (Inl (Unhandled e), s2)
                     | Inr r \<Rightarrow> (Inr r, s2)))))"

section \<open>Notions used in the proofs\<close>

text \<open>
  \<open>extends s s'\<close>: \<open>s'\<close> is \<open>s\<close> with more lines printed and more calls recorded, none
  of them a constructor call or a call of \<^verbatim>\<open>_apply_mmgp\<close>.
\<close>

definition extends :: "module_state \<Rightarrow> module_state \<Rightarrow> bool" where
  "extends s s' =
     (\<exists>out cs. s' = s\<lparr>stdout := stdout s @ out, calls := calls s @ cs\<rparr>
        \<and> filter is_construction cs = [] \<and> filter is_application cs = [])"

text \<open>The state in which line 84 calls \<^verbatim>\<open>_apply_mmgp\<close>, the constructor having returned.\<close>

definition constructed :: "'a world \<Rightarrow> module_state \<Rightarrow> module_state" where
  "constructed w s =
     record_call (Call_apply_mmgp (Some (T2MRuntime_args w s)))
       ((record_call (Call_T2MRuntime (T2MRuntime_args w s)) s)\<lparr>runtime := Some (T2MRuntime_args w s)\<rparr>)"

section \<open>Example inputs\<close>

text \<open>
  A world in which the constructor, the import of \<^verbatim>\<open>mmgp\<close>, the extraction hook and
  \<^verbatim>\<open>offload.profile\<close> all succeed; the two flags say whether \<^verbatim>\<open>config.yml\<close> and
  \<^verbatim>\<open>latest.ckpt\<close> exist under the default model directory.
\<close>

definition example_world :: "bool \<Rightarrow> bool \<Rightarrow> int world" where
  "example_world config ckpt =
     \<lparr>path_exists = (\<lambda>p. if p = ''ckpts/tencent/HY-Motion-1.0-Lite/config.yml'' then config
                           else if p = ''ckpts/tencent/HY-Motion-1.0-Lite/latest.ckpt'' then ckpt
                           else False),
      T2MRuntime_init = (\<lambda>a. None),
      import_mmgp = None,
      extract_models_for_mmgp = (\<lambda>h. Inr [''network'', ''text_encoder'']),
      offload_profile = (\<lambda>p n v k. None),
      TemporaryDirectory = (\<lambda>p. Inr (''/tmp/'' @ p @ ''0'')),
      runtime_generate_motion = (\<lambda>h a. Inr Map.empty)\<rparr>"

definition example_request :: MotionRequest where
  "example_request =
     \<lparr>req_text = ''a person walks forward'', req_duration = 3, req_seed = 42, req_cfg_scale = 5\<rparr>"

text \<open>
  Two callers on a fresh module, everything present and succeeding: both test the slot
  (line 70) and the config file (line 71) before either constructs; then the first
  constructs, applies the policy and returns, and the second does the same.
\<close>

definition two_callers :: "pc list \<times> module_state" where
  "two_callers =
     run_schedule (example_world True True) [0, 1, 0, 1, 0, 0, 0, 1, 1, 1] [L70, L70]
       (module_import Map.empty)"

text \<open>A fresh module in a process started with \<^verbatim>\<open>MMGP_PROFILE=balanced\<close>.\<close>

definition bad_profile_state :: module_state where
  "bad_profile_state = module_import [''MMGP_PROFILE'' \<mapsto> ''balanced'']"

text \<open>The object the first \<^verbatim>\<open>get_runtime\<close> of a fresh module builds in that world.\<close>

definition example_runtime :: T2MRuntime where
  "example_runtime = T2MRuntime_args (example_world True True) (module_import Map.empty)"

text \<open>
  A model output with a batch of one and two frames, on the device except for the last
  array; the world whose runtime returns it; and the response the endpoint builds.
\<close>

definition example_output :: "string \<rightharpoonup> int pyval" where
  "example_output =
     [''keypoints3d'' \<mapsto> Tensor CUDA None (Array [1, 2, 1, 3] [1, 2, 3, 4, 5, 6]),
      ''rot6d'' \<mapsto> Tensor CUDA None (Array [1, 2, 6] [0, 1, 2, 3, 4, 5, 6, 7, 8, 9, 10, 11]),
      ''transl'' \<mapsto> Tensor CUDA None (Array [1, 2, 3] [0, 0, 0, 0, 0, 1]),
      ''root_rotations_mat'' \<mapsto> Tensor CPU None (Array [1, 2, 2, 2] [1, 0, 0, 1, 1, 0, 0, 1])]"

definition generating_world :: "int world" where
  "generating_world = (example_world True True)\<lparr>runtime_generate_motion := (\<lambda>h a. Inr example_output)\<rparr>"

definition example_response :: "int response" where
  "example_response =
     \<lparr>resp_motion =
        \<lparr>keypoints3d = Seq [Seq [Seq [Num 1, Num 2, Num 3]], Seq [Seq [Num 4, Num 5, Num 6]]],
         rot6d = Seq [Seq [Num 0, Num 1, Num 2, Num 3, Num 4, Num 5],
                      Seq [Num 6, Num 7, Num 8, Num 9, Num 10, Num 11]],
         transl = Seq [Seq [Num 0, Num 0, Num 0], Seq [Num 0, Num 0, Num 1]],
         root_rotations_mat = Seq [Seq [Seq [Num 1, Num 0], Seq [Num 0, Num 1]],
                                   Seq [Seq [Num 1, Num 0], Seq [Num 0, Num 1]]],
         num_frames = 2, fps = 30\<rparr>,
      resp_meta = \<lparr>meta_text = ''a person walks forward'', meta_duration = 3, meta_seed = 42\<rparr>\<rparr>"

section \<open>Properties\<close>

subsection \<open>Evaluation of concrete runs\<close>

lemmas eval_defs = module_import_def environ_setdefault_def environ_get_def path_join_def
  example_world_def example_request_def get_runtime_def T2MRuntime_args_def record_call_def
  constructions_def applications_def apply_mmgp_def apply_mmgp_try_def apply_mmgp_except_def
  call_extract_models_def print_def py_int_def py_strip_def py_isspace_def max_str_digits_def
  count_digits_def digit_of_def parse_unsigned_def py_lower_def py_lower_char_def
  thread_step_def py_str_int_def digit_char_def str_nat.simps int_ValueError_def
  exceeds_limit_def literal_prefix_def py_repr_def py_repr_char_def hex_char_def
  isinstance_ImportError_def isinstance_FileNotFoundError_def

subsection \<open>What \<^verbatim>\<open>_apply_mmgp\<close> and \<^verbatim>\<open>get_runtime\<close> change\<close>

lemma run_each_fixed:
  "(\<And>x. f x s = (g x, s)) \<Longrightarrow> run_each f xs s = (map g xs, s)"
  by (induction xs) simp_all

lemma extends_refl: "extends s s"
  unfolding extends_def by (rule exI [of _ "[]"], rule exI [of _ "[]"]) simp

lemma extends_print: "extends s s' \<Longrightarrow> extends s (print l s')"
  unfolding extends_def print_def
  apply (elim exE conjE)
  subgoal for out cs
    by (rule exI [of _ "out @ [l]"], rule exI [of _ cs]) simp
  done

lemma extends_record:
  "extends s s' \<Longrightarrow> \<not> is_construction c \<Longrightarrow> \<not> is_application c \<Longrightarrow> extends s (record_call c s')"
  unfolding extends_def record_call_def
  apply (elim exE conjE)
  subgoal for out cs
    by (rule exI [of _ out], rule exI [of _ "cs @ [c]"]) simp
  done

lemma extends_fields:
  assumes "extends s s'"
  shows "runtime s' = runtime s" and "environ s' = environ s"
    and "CONFIG_PATH s' = CONFIG_PATH s" and "CKPT_PATH s' = CKPT_PATH s"
    and "MODEL_PATH s' = MODEL_PATH s"
    and "constructions s' = constructions s" and "applications s' = applications s"
  using assms unfolding extends_def constructions_def applications_def by auto

lemma call_extract_models_extends: "extends s (snd (call_extract_models w rt s))"
  unfolding call_extract_models_def
  by (cases rt) (simp_all add: extends_refl extends_record)

lemma apply_mmgp_try_extends: "extends s (snd (apply_mmgp_try w rt p s))"
proof (cases "import_mmgp w")
  case (Some e)
  then show ?thesis by (simp add: apply_mmgp_try_def extends_refl)
next
  case None
  obtain r s1 where ex: "call_extract_models w rt s = (r, s1)"
    by (cases "call_extract_models w rt s")
  have e1: "extends s s1" using call_extract_models_extends [of s w rt] ex by simp
  show ?thesis
  proof (cases r)
    case (Inl e)
    then show ?thesis using None ex e1 by (simp add: apply_mmgp_try_def)
  next
    case (Inr pipe)
    show ?thesis
      using None ex e1 Inr
      by (auto simp: apply_mmgp_try_def Let_def extends_print extends_record
               split: option.splits)
  qed
qed

lemma apply_mmgp_except_extends: "extends s s' \<Longrightarrow> extends s (apply_mmgp_except e s')"
  unfolding apply_mmgp_except_def by (simp add: extends_print)

lemma apply_mmgp_extends: "extends s (snd (apply_mmgp w rt s))"
proof (cases "py_int (environ_get (environ s) ''MMGP_PROFILE'' ''1'')")
  case None
  then show ?thesis by (simp add: apply_mmgp_def extends_refl)
next
  case (Some p)
  obtain r s1 where t: "apply_mmgp_try w rt p s = (r, s1)" by (cases "apply_mmgp_try w rt p s")
  have e1: "extends s s1" using apply_mmgp_try_extends [of s w rt p] t by simp
  show ?thesis
    using Some t e1
    by (cases r) (simp_all add: apply_mmgp_def extends_refl apply_mmgp_except_extends)
qed

lemma apply_mmgp_returns:
  "py_int (environ_get (environ s) ''MMGP_PROFILE'' ''1'') \<noteq> None \<Longrightarrow> fst (apply_mmgp w rt s) = None"
  by (auto simp: apply_mmgp_def split: option.splits prod.splits)

lemma apply_mmgp_raises:
  "py_int (environ_get (environ s) ''MMGP_PROFILE'' ''1'') = None \<Longrightarrow>
   apply_mmgp w rt s = (Some (int_ValueError (environ_get (environ s) ''MMGP_PROFILE'' ''1'')), s)"
  by (simp add: apply_mmgp_def)

lemma get_runtime_cached: "runtime s = Some h \<Longrightarrow> get_runtime w s = (Inr (Some h), s)"
  by (simp add: get_runtime_def)

lemma get_runtime_config_absent:
  "runtime s = None \<Longrightarrow> \<not> path_exists w (CONFIG_PATH s) \<Longrightarrow>
   get_runtime w s = (Inl (Exn FileNotFoundError (''Config not found: '' @ CONFIG_PATH s)), s)"
  by (simp add: get_runtime_def)

lemma get_runtime_constructor_raises:
  "runtime s = None \<Longrightarrow> path_exists w (CONFIG_PATH s) \<Longrightarrow>
   T2MRuntime_init w (T2MRuntime_args w s) = Some e \<Longrightarrow>
   get_runtime w s = (Inl e, record_call (Call_T2MRuntime (T2MRuntime_args w s)) s)"
  by (simp add: get_runtime_def Let_def)

lemma constructed_fields:
  "runtime (constructed w s) = Some (T2MRuntime_args w s)"
  "environ (constructed w s) = environ s"
  "constructions (constructed w s) = Suc (constructions s)"
  "applications (constructed w s) = Suc (applications s)"
  "CONFIG_PATH (constructed w s) = CONFIG_PATH s"
  by (simp_all add: constructed_def record_call_def constructions_def applications_def)

lemma get_runtime_constructs:
  assumes "runtime s = None" and "path_exists w (CONFIG_PATH s)"
    and "T2MRuntime_init w (T2MRuntime_args w s) = None"
  shows "get_runtime w s =
           (case apply_mmgp w (Some (T2MRuntime_args w s)) (constructed w s) of
              (Some e, s3) \<Rightarrow> (Inl e, s3)
            | (None, s3) \<Rightarrow> (Inr (runtime s3), s3))"
  using assms by (simp add: get_runtime_def Let_def constructed_def record_call_def)

lemma get_runtime_state:
  assumes "runtime s = None" and "path_exists w (CONFIG_PATH s)"
    and "T2MRuntime_init w (T2MRuntime_args w s) = None"
  shows "extends (constructed w s) (snd (get_runtime w s))"
proof -
  have "extends (constructed w s) (snd (apply_mmgp w (Some (T2MRuntime_args w s)) (constructed w s)))"
    by (rule apply_mmgp_extends)
  then show ?thesis
    using get_runtime_constructs [OF assms] by (auto split: prod.splits option.splits)
qed

lemma get_runtime_first:
  assumes "runtime s = None" and "path_exists w (CONFIG_PATH s)"
    and "T2MRuntime_init w (T2MRuntime_args w s) = None"
    and "py_int (environ_get (environ s) ''MMGP_PROFILE'' ''1'') \<noteq> None"
  shows "fst (get_runtime w s) = Inr (Some (T2MRuntime_args w s))"
proof -
  let ?c = "constructed w s"
  let ?r = "apply_mmgp w (Some (T2MRuntime_args w s)) ?c"
  have "fst ?r = None" using assms(4) by (intro apply_mmgp_returns) (simp add: constructed_fields)
  moreover have "runtime (snd ?r) = Some (T2MRuntime_args w s)"
    using extends_fields(1) [OF apply_mmgp_extends [of ?c w "Some (T2MRuntime_args w s)"]]
    by (simp add: constructed_fields)
  ultimately show ?thesis
    using get_runtime_constructs [OF assms(1-3)] by (auto split: prod.splits option.splits)
qed

lemma generate_motion_config_absent:
  "runtime s = None \<Longrightarrow> \<not> path_exists w (CONFIG_PATH s) \<Longrightarrow>
   generate_motion w req s =
     (Inl (HTTPException 503 (''Model not available: Config not found: '' @ CONFIG_PATH s)), s)"
  by (simp add: generate_motion_def get_runtime_config_absent isinstance_FileNotFoundError_def)

subsection \<open>Counting calls, and callers that overlap\<close>

lemma get_runtime_counts:
  assumes "runtime s = None" and "path_exists w (CONFIG_PATH s)"
    and "T2MRuntime_init w (T2MRuntime_args w s) = None"
  shows "runtime (snd (get_runtime w s)) = Some (T2MRuntime_args w s)"
    and "constructions (snd (get_runtime w s)) = Suc (constructions s)"
    and "applications (snd (get_runtime w s)) = Suc (applications s)"
  using extends_fields [OF get_runtime_state [OF assms]] by (simp_all add: constructed_fields)

lemma two_callers_eval:
  "fst two_callers =
  [Returned (Some \<lparr>object_id = 0, config_path = ''ckpts/tencent/HY-Motion-1.0-Lite/config.yml'',
          ckpt_name = ''ckpts/tencent/HY-Motion-1.0-Lite/latest.ckpt'', skip_text = False,
          device_ids = None, skip_model_loading = False, disable_prompt_engineering = True,
          prompt_engineering_host = None, prompt_engineering_model_path = None\<rparr>),
   Returned (Some \<lparr>object_id = 1, config_path = ''ckpts/tencent/HY-Motion-1.0-Lite/config.yml'',
          ckpt_name = ''ckpts/tencent/HY-Motion-1.0-Lite/latest.ckpt'', skip_text = False,
          device_ids = None, skip_model_loading = False, disable_prompt_engineering = True,
          prompt_engineering_host = None, prompt_engineering_model_path = None\<rparr>)]"
  "constructions (snd two_callers) = 2"
  "applications (snd two_callers) = 2"
  by (simp_all add: two_callers_def eval_defs Let_def)

lemma run_alone_get_runtime:
  "run_alone w s = (case get_runtime w s of (Inl e, s') \<Rightarrow> (Raised e, s') | (Inr r, s') \<Rightarrow> (Returned r, s'))"
  by (auto simp: run_alone_def thread_step_def get_runtime_def Let_def record_call_def
           split: option.splits prod.splits)

lemma extends_calls: "extends s s' \<Longrightarrow> \<exists>cs. calls s' = calls s @ cs"
  unfolding extends_def by auto

lemma get_runtime_records_constructor:
  assumes "runtime s = None" and "path_exists w (CONFIG_PATH s)"
  shows "\<exists>cs. calls (snd (get_runtime w s)) = calls s @ Call_T2MRuntime (T2MRuntime_args w s) # cs"
proof (cases "T2MRuntime_init w (T2MRuntime_args w s)")
  case (Some e)
  then show ?thesis
    using get_runtime_constructor_raises [OF assms] by (simp add: record_call_def)
next
  case None
  from extends_calls [OF get_runtime_state [OF assms None]]
  obtain cs where "calls (snd (get_runtime w s)) = calls (constructed w s) @ cs" by blast
  then show ?thesis by (simp add: constructed_def record_call_def)
qed

lemma module_import_fields:
  "runtime (module_import env) = None"
  "calls (module_import env) = []"
  "stdout (module_import env) = []"
  by (simp_all add: module_import_def Let_def)



lemma apply_mmgp_disabled:
  "py_int (environ_get (environ s) ''MMGP_PROFILE'' ''1'') = Some p \<Longrightarrow> p \<le> 0 \<Longrightarrow>
   apply_mmgp w rt s = (None, s)"
  by (simp add: apply_mmgp_def)

lemma apply_mmgp_tunes:
  assumes "py_int (environ_get (environ s) ''MMGP_PROFILE'' ''1'') = Some p" and "0 < p"
    and "import_mmgp w = None" and "extract_models_for_mmgp w h = Inr pipe" and "pipe \<noteq> []"
    and "py_int (environ_get (environ s) ''MMGP_VERBOSE'' ''1'') = Some v"
  shows "fst (apply_mmgp w (Some h) s) = None"
    and "calls (snd (apply_mmgp w (Some h) s)) =
           calls s @ [Call_extract_models_for_mmgp h,
                      Call_offload_profile pipe p v (if p = 1 \<or> p = 3 then [] else [(''budgets'', [(''*'', 4000)])])]"
  using assms
  by (auto simp: apply_mmgp_def apply_mmgp_try_def call_extract_models_def record_call_def
                 print_def apply_mmgp_except_def Let_def
           split: option.splits)

lemma module_import_environ:
  "k \<noteq> ''QWEN_QUANTIZATION'' \<Longrightarrow> k \<noteq> ''DISABLE_PROMPT_ENGINEERING'' \<Longrightarrow> k \<noteq> ''USE_HF_MODELS'' \<Longrightarrow>
   environ (module_import env) k = env k"
  by (simp add: module_import_def Let_def environ_setdefault_def split: option.splits)

lemma py_int_1: "py_int ''1'' = Some 1"
  by (simp add: py_int_def py_strip_def py_isspace_def max_str_digits_def count_digits_def
        digit_of_def parse_unsigned_def)

subsection \<open>Properties of the singleton manager and the offload policy\<close>

text \<open>
  C1. With the slot empty and the config file absent, every call of \<^verbatim>\<open>get_runtime\<close>
  in a sequence raises \<open>FileNotFoundError\<close> and every call of the endpoint in a sequence
  fails with an \<open>HTTPException\<close> of status 503; the state after the calls is the state
  before them, so no constructor call was made and nothing was cached: whatever the
  files are at the next call (world \<open>w'\<close>), that call behaves as a first call.
\<close>

theorem C1_config_absent:
  assumes "runtime s = None" and "\<not> path_exists w (CONFIG_PATH s)"
  shows "run_each (\<lambda>u. get_runtime w) (us :: unit list) s =
           (map (\<lambda>u. Inl (Exn FileNotFoundError (''Config not found: '' @ CONFIG_PATH s))) us, s)
       \<and> run_each (generate_motion w) reqs s =
           (map (\<lambda>r. Inl (HTTPException 503
                  (''Model not available: Config not found: '' @ CONFIG_PATH s))) reqs, s)
       \<and> get_runtime w' (snd (get_runtime w s)) = get_runtime w' s"
  using assms
  by (simp add: run_each_fixed get_runtime_config_absent generate_motion_config_absent)

theorem C1_config_absent_witness:
  "runtime (module_import Map.empty) = None
   \<and> \<not> path_exists (example_world False True) (CONFIG_PATH (module_import Map.empty))
   \<and> run_each (\<lambda>u. get_runtime (example_world False True)) [(), ()] (module_import Map.empty) =
       ([Inl (Exn FileNotFoundError
                ''Config not found: ckpts/tencent/HY-Motion-1.0-Lite/config.yml''),
         Inl (Exn FileNotFoundError
                ''Config not found: ckpts/tencent/HY-Motion-1.0-Lite/config.yml'')],
        module_import Map.empty)
   \<and> run_each (generate_motion (example_world False True)) [example_request, example_request]
         (module_import Map.empty) =
       ([Inl (HTTPException 503
                ''Model not available: Config not found: ckpts/tencent/HY-Motion-1.0-Lite/config.yml''),
         Inl (HTTPException 503
                ''Model not available: Config not found: ckpts/tencent/HY-Motion-1.0-Lite/config.yml'')],
        module_import Map.empty)"
proof -
  have h1: "runtime (module_import Map.empty) = None"
    by (simp add: module_import_def Let_def)
  have h2: "\<not> path_exists (example_world False True) (CONFIG_PATH (module_import Map.empty))"
    by (simp add: eval_defs Let_def)
  have c: "CONFIG_PATH (module_import Map.empty) = ''ckpts/tencent/HY-Motion-1.0-Lite/config.yml''"
    by (simp add: eval_defs Let_def)
  show ?thesis
    using h1 h2 C1_config_absent [of "module_import Map.empty" "example_world False True" "[(), ()]"
        "[example_request, example_request]" "example_world True True", OF h1 h2]
    by (simp add: c del: run_each.simps)
qed

text \<open>
  C2, as amended. When calls of \<^verbatim>\<open>get_runtime\<close> do not overlap (each returns before the
  next starts), then from an empty slot, with the config file present, a constructor
  that returns and a profile setting that parses as an integer, any number of calls
  (at least one) makes exactly one constructor call and exactly one call of
  \<^verbatim>\<open>_apply_mmgp\<close>, and every call returns that one object.
\<close>

theorem C2_sequential_callers:
  assumes "runtime s = None" and "path_exists w (CONFIG_PATH s)"
    and "T2MRuntime_init w (T2MRuntime_args w s) = None"
    and "py_int (environ_get (environ s) ''MMGP_PROFILE'' ''1'') \<noteq> None"
  shows "fst (run_each (\<lambda>u. get_runtime w) (u # us :: unit list) s) =
           map (\<lambda>u. Inr (Some (T2MRuntime_args w s))) (u # us)
       \<and> constructions (snd (run_each (\<lambda>u. get_runtime w) (u # us) s)) = constructions s + 1
       \<and> applications (snd (run_each (\<lambda>u. get_runtime w) (u # us) s)) = applications s + 1"
proof -
  obtain r s1 where g: "get_runtime w s = (r, s1)" by (cases "get_runtime w s")
  have r: "r = Inr (Some (T2MRuntime_args w s))"
    using get_runtime_first [OF assms] g by simp
  have s1: "runtime s1 = Some (T2MRuntime_args w s)" "constructions s1 = Suc (constructions s)"
    "applications s1 = Suc (applications s)"
    using get_runtime_counts [OF assms(1-3)] g by simp_all
  have rest: "run_each (\<lambda>u. get_runtime w) us s1 =
                (map (\<lambda>u. Inr (Some (T2MRuntime_args w s))) us, s1)"
    by (rule run_each_fixed) (simp add: get_runtime_cached [OF s1(1)])
  show ?thesis using g r s1 rest by simp
qed

theorem C2_sequential_callers_witness:
  "runtime (module_import Map.empty) = None
   \<and> path_exists (example_world True True) (CONFIG_PATH (module_import Map.empty))
   \<and> T2MRuntime_init (example_world True True)
        (T2MRuntime_args (example_world True True) (module_import Map.empty)) = None
   \<and> py_int (environ_get (environ (module_import Map.empty)) ''MMGP_PROFILE'' ''1'') \<noteq> None
   \<and> fst (run_each (\<lambda>u. get_runtime (example_world True True)) [(), (), ()]
             (module_import Map.empty)) =
       [Inr (Some (T2MRuntime_args (example_world True True) (module_import Map.empty))),
        Inr (Some (T2MRuntime_args (example_world True True) (module_import Map.empty))),
        Inr (Some (T2MRuntime_args (example_world True True) (module_import Map.empty)))]
   \<and> constructions (snd (run_each (\<lambda>u. get_runtime (example_world True True)) [(), (), ()]
                            (module_import Map.empty))) = 1
   \<and> applications (snd (run_each (\<lambda>u. get_runtime (example_world True True)) [(), (), ()]
                           (module_import Map.empty))) = 1"
proof -
  have h1: "runtime (module_import Map.empty) = None"
    by (simp add: module_import_fields)
  have h2: "path_exists (example_world True True) (CONFIG_PATH (module_import Map.empty))"
    by (simp add: eval_defs Let_def)
  have h3: "T2MRuntime_init (example_world True True)
        (T2MRuntime_args (example_world True True) (module_import Map.empty)) = None"
    by (simp add: example_world_def)
  have h4: "py_int (environ_get (environ (module_import Map.empty)) ''MMGP_PROFILE'' ''1'') \<noteq> None"
    by (simp add: module_import_environ environ_get_def py_int_1)
  have z: "constructions (module_import Map.empty) = 0" "applications (module_import Map.empty) = 0"
    by (simp_all add: constructions_def applications_def module_import_fields)
  show ?thesis
    using h1 h2 h3 h4 C2_sequential_callers [OF h1 h2 h3 h4, of "()" "[(), ()]"]
    by (simp add: z del: run_each.simps)
qed

text \<open>
  C2, as stated, fails: nothing excludes two callers from being inside
  \<^verbatim>\<open>get_runtime\<close> at once. In the run \<open>two_callers\<close> both callers have returned, two
  constructor calls and two calls of \<^verbatim>\<open>_apply_mmgp\<close> were made, and the two callers
  hold different objects.
\<close>

theorem C2_overlapping_callers_counterexample:
  "\<not> (\<forall>sched. list_all finished
                  (fst (run_schedule (example_world True True) sched [L70, L70]
                          (module_import Map.empty))) \<longrightarrow>
         constructions (snd (run_schedule (example_world True True) sched [L70, L70]
                               (module_import Map.empty))) = 1
       \<and> applications (snd (run_schedule (example_world True True) sched [L70, L70]
                               (module_import Map.empty))) = 1
       \<and> (\<exists>h. fst (run_schedule (example_world True True) sched [L70, L70]
                       (module_import Map.empty)) = [Returned (Some h), Returned (Some h)]))"
proof
  assume a: "\<forall>sched. list_all finished
                  (fst (run_schedule (example_world True True) sched [L70, L70]
                          (module_import Map.empty))) \<longrightarrow>
         constructions (snd (run_schedule (example_world True True) sched [L70, L70]
                               (module_import Map.empty))) = 1
       \<and> applications (snd (run_schedule (example_world True True) sched [L70, L70]
                               (module_import Map.empty))) = 1
       \<and> (\<exists>h. fst (run_schedule (example_world True True) sched [L70, L70]
                       (module_import Map.empty)) = [Returned (Some h), Returned (Some h)])"
  have "list_all finished (fst two_callers)"
    by (simp add: two_callers_eval)
  with a have "constructions (snd two_callers) = 1"
    unfolding two_callers_def by blast
  then show False by (simp add: two_callers_eval)
qed

text \<open>
  C9. With the slot empty, the config file present and the checkpoint file absent,
  \<^verbatim>\<open>get_runtime\<close> calls the constructor with \<^verbatim>\<open>skip_model_loading=True\<close>; the missing
  checkpoint raises nothing in \<^verbatim>\<open>get_runtime\<close> itself. If the constructor returns, the
  object is stored in the slot and later calls return it; if moreover the profile
  setting parses as an integer, this first call returns it too.
\<close>

theorem C9_checkpoint_absent:
  assumes "runtime s = None" and "path_exists w (CONFIG_PATH s)"
    and "\<not> path_exists w (CKPT_PATH s)"
  shows "skip_model_loading (T2MRuntime_args w s)
     \<and> (\<exists>cs. calls (snd (get_runtime w s)) = calls s @ Call_T2MRuntime (T2MRuntime_args w s) # cs)
     \<and> (T2MRuntime_init w (T2MRuntime_args w s) = None \<longrightarrow>
          runtime (snd (get_runtime w s)) = Some (T2MRuntime_args w s)
          \<and> fst (get_runtime w' (snd (get_runtime w s))) = Inr (Some (T2MRuntime_args w s)))
     \<and> (T2MRuntime_init w (T2MRuntime_args w s) = None \<longrightarrow>
        py_int (environ_get (environ s) ''MMGP_PROFILE'' ''1'') \<noteq> None \<longrightarrow>
          fst (get_runtime w s) = Inr (Some (T2MRuntime_args w s)))"
proof (intro conjI impI)
  show "skip_model_loading (T2MRuntime_args w s)"
    using assms(3) by (simp add: T2MRuntime_args_def)
  show "\<exists>cs. calls (snd (get_runtime w s)) = calls s @ Call_T2MRuntime (T2MRuntime_args w s) # cs"
    by (rule get_runtime_records_constructor [OF assms(1,2)])
next
  assume ok: "T2MRuntime_init w (T2MRuntime_args w s) = None"
  show c: "runtime (snd (get_runtime w s)) = Some (T2MRuntime_args w s)"
    by (rule get_runtime_counts(1) [OF assms(1,2) ok])
  show "fst (get_runtime w' (snd (get_runtime w s))) = Inr (Some (T2MRuntime_args w s))"
    by (simp add: get_runtime_cached [OF c])
next
  assume "T2MRuntime_init w (T2MRuntime_args w s) = None"
    and "py_int (environ_get (environ s) ''MMGP_PROFILE'' ''1'') \<noteq> None"
  then show "fst (get_runtime w s) = Inr (Some (T2MRuntime_args w s))"
    by (rule get_runtime_first [OF assms(1,2)])
qed

theorem C9_checkpoint_absent_witness:
  "runtime (module_import Map.empty) = None
   \<and> path_exists (example_world True False) (CONFIG_PATH (module_import Map.empty))
   \<and> \<not> path_exists (example_world True False) (CKPT_PATH (module_import Map.empty))
   \<and> T2MRuntime_init (example_world True False)
        (T2MRuntime_args (example_world True False) (module_import Map.empty)) = None
   \<and> py_int (environ_get (environ (module_import Map.empty)) ''MMGP_PROFILE'' ''1'') \<noteq> None
   \<and> skip_model_loading (T2MRuntime_args (example_world True False) (module_import Map.empty))
   \<and> runtime (snd (get_runtime (example_world True False) (module_import Map.empty))) =
       Some (T2MRuntime_args (example_world True False) (module_import Map.empty))
   \<and> fst (get_runtime (example_world True False) (module_import Map.empty)) =
       Inr (Some (T2MRuntime_args (example_world True False) (module_import Map.empty)))
   \<and> fst (get_runtime (example_world False False)
            (snd (get_runtime (example_world True False) (module_import Map.empty)))) =
       Inr (Some (T2MRuntime_args (example_world True False) (module_import Map.empty)))"
proof -
  have h1: "runtime (module_import Map.empty) = None"
    by (simp add: module_import_fields)
  have h2: "path_exists (example_world True False) (CONFIG_PATH (module_import Map.empty))"
    by (simp add: eval_defs Let_def)
  have h3: "\<not> path_exists (example_world True False) (CKPT_PATH (module_import Map.empty))"
    by (simp add: eval_defs Let_def)
  have h4: "T2MRuntime_init (example_world True False)
        (T2MRuntime_args (example_world True False) (module_import Map.empty)) = None"
    by (simp add: example_world_def)
  have h5: "py_int (environ_get (environ (module_import Map.empty)) ''MMGP_PROFILE'' ''1'') \<noteq> None"
    by (simp add: module_import_environ environ_get_def py_int_1)
  show ?thesis
    using h1 h2 h3 h4 h5 C9_checkpoint_absent [OF h1 h2 h3, of "example_world False False"]
    by simp
qed



text \<open>
  C4. \<^verbatim>\<open>_apply_mmgp\<close> dispatches on the profile, the integer \<open>p\<close> that
  \<^verbatim>\<open>MMGP_PROFILE\<close> parses to. For \<open>p \<le> 0\<close> it returns at once and changes nothing.
  For \<open>p > 0\<close>, when \<^verbatim>\<open>mmgp\<close> can be imported, the runtime yields a non-empty set of
  components and the verbosity setting parses, it calls the extraction hook and then
  \<^verbatim>\<open>offload.profile\<close>: with no keyword argument beyond the profile and the verbosity
  when \<open>p\<close> is 1 or 3, and with \<^verbatim>\<open>budgets={"*": 4000}\<close> for every other positive \<open>p\<close>.
\<close>

theorem C4_profile_dispatch:
  assumes "py_int (environ_get (environ s) ''MMGP_PROFILE'' ''1'') = Some p"
  shows "(p \<le> 0 \<longrightarrow> apply_mmgp w rt s = (None, s))
     \<and> (0 < p \<longrightarrow> import_mmgp w = None \<longrightarrow> extract_models_for_mmgp w h = Inr pipe \<longrightarrow> pipe \<noteq> [] \<longrightarrow>
        py_int (environ_get (environ s) ''MMGP_VERBOSE'' ''1'') = Some v \<longrightarrow>
          fst (apply_mmgp w (Some h) s) = None
          \<and> calls (snd (apply_mmgp w (Some h) s)) =
              calls s @ [Call_extract_models_for_mmgp h,
                         Call_offload_profile pipe p v
                           (if p = 1 \<or> p = 3 then [] else [(''budgets'', [(''*'', 4000)])])])"
  using assms apply_mmgp_disabled [of s p w rt] apply_mmgp_tunes [of s p w h pipe v]
  by simp

theorem C4_profile_dispatch_witness:
  "py_int (environ_get (environ (module_import [''MMGP_PROFILE'' \<mapsto> ''0''])) ''MMGP_PROFILE'' ''1'')
     = Some 0
   \<and> py_int (environ_get (environ (module_import [''MMGP_PROFILE'' \<mapsto> ''3''])) ''MMGP_PROFILE'' ''1'')
     = Some 3
   \<and> py_int (environ_get (environ (module_import [''MMGP_PROFILE'' \<mapsto> ''2''])) ''MMGP_PROFILE'' ''1'')
     = Some 2
   \<and> apply_mmgp (example_world True True) (Some example_runtime)
        (module_import [''MMGP_PROFILE'' \<mapsto> ''0'']) =
       (None, module_import [''MMGP_PROFILE'' \<mapsto> ''0''])
   \<and> calls (snd (apply_mmgp (example_world True True) (Some example_runtime)
                   (module_import [''MMGP_PROFILE'' \<mapsto> ''3'']))) =
       [Call_extract_models_for_mmgp example_runtime,
        Call_offload_profile [''network'', ''text_encoder''] 3 1 []]
   \<and> calls (snd (apply_mmgp (example_world True True) (Some example_runtime)
                   (module_import [''MMGP_PROFILE'' \<mapsto> ''2'']))) =
       [Call_extract_models_for_mmgp example_runtime,
        Call_offload_profile [''network'', ''text_encoder''] 2 1 [(''budgets'', [(''*'', 4000)])]]"
proof -
  have p: "py_int (environ_get (environ (module_import [''MMGP_PROFILE'' \<mapsto> ''0''])) ''MMGP_PROFILE'' ''1'')
     = Some 0"
    "py_int (environ_get (environ (module_import [''MMGP_PROFILE'' \<mapsto> ''3''])) ''MMGP_PROFILE'' ''1'')
     = Some 3"
    "py_int (environ_get (environ (module_import [''MMGP_PROFILE'' \<mapsto> ''2''])) ''MMGP_PROFILE'' ''1'')
     = Some 2"
    by (simp_all add: module_import_environ environ_get_def py_int_def py_strip_def py_isspace_def
          max_str_digits_def count_digits_def digit_of_def parse_unsigned_def)
  have v: "py_int (environ_get (environ (module_import [''MMGP_PROFILE'' \<mapsto> x])) ''MMGP_VERBOSE'' ''1'')
     = Some 1" for x
    by (simp add: module_import_environ environ_get_def py_int_1)
  have w: "import_mmgp (example_world True True) = None"
    "extract_models_for_mmgp (example_world True True) example_runtime
       = Inr [''network'', ''text_encoder'']"
    by (simp_all add: example_world_def)
  show ?thesis
    using p C4_profile_dispatch [OF p(1), of "example_world True True" "Some example_runtime"]
      C4_profile_dispatch [OF p(2), of "example_world True True" "Some example_runtime"
        example_runtime "[''network'', ''text_encoder'']" 1]
      C4_profile_dispatch [OF p(3), of "example_world True True" "Some example_runtime"
        example_runtime "[''network'', ''text_encoder'']" 1]
    by (simp add: v w module_import_fields)
qed

text \<open>
  C5. The module's documentation gives 3 (balanced) as the default of
  \<^verbatim>\<open>MMGP_PROFILE\<close>. Line 43 reads the variable with the default \<^verbatim>\<open>"1"\<close>: whatever else
  the environment holds, without \<^verbatim>\<open>MMGP_PROFILE\<close> the profile is 1, and the first
  \<^verbatim>\<open>get_runtime\<close> of a process started with an empty environment calls
  \<^verbatim>\<open>offload.profile\<close> with profile 1.
\<close>

theorem C5_default_profile_is_1:
  "py_int (environ_get (environ (module_import (env(''MMGP_PROFILE'' := None)))) ''MMGP_PROFILE'' ''1'')
     = Some 1
   \<and> calls (snd (get_runtime (example_world True True) (module_import Map.empty))) =
       [Call_T2MRuntime (T2MRuntime_args (example_world True True) (module_import Map.empty)),
        Call_apply_mmgp (Some (T2MRuntime_args (example_world True True) (module_import Map.empty))),
        Call_extract_models_for_mmgp (T2MRuntime_args (example_world True True) (module_import Map.empty)),
        Call_offload_profile [''network'', ''text_encoder''] 1 1 []]"
proof
  show "py_int (environ_get (environ (module_import (env(''MMGP_PROFILE'' := None)))) ''MMGP_PROFILE'' ''1'')
     = Some 1"
    by (simp add: module_import_environ environ_get_def py_int_1)
  show "calls (snd (get_runtime (example_world True True) (module_import Map.empty))) =
       [Call_T2MRuntime (T2MRuntime_args (example_world True True) (module_import Map.empty)),
        Call_apply_mmgp (Some (T2MRuntime_args (example_world True True) (module_import Map.empty))),
        Call_extract_models_for_mmgp (T2MRuntime_args (example_world True True) (module_import Map.empty)),
        Call_offload_profile [''network'', ''text_encoder''] 1 1 []]"
    by (simp add: eval_defs Let_def)
qed

text \<open>
  C6. \<^verbatim>\<open>_apply_mmgp\<close> is meant never to raise: its \<^verbatim>\<open>try\<close> swallows every exception,
  the parse of \<^verbatim>\<open>MMGP_VERBOSE\<close> included. The parse of \<^verbatim>\<open>MMGP_PROFILE\<close> on line 43
  stands before the \<^verbatim>\<open>try\<close>: with \<^verbatim>\<open>MMGP_PROFILE=balanced\<close> the \<open>ValueError\<close> leaves
  the function, whatever object it was given.
\<close>

theorem C6_profile_parse_raises:
  "apply_mmgp (example_world True True) rt bad_profile_state =
     (Some (Exn ValueError
              (''invalid literal for int() with base 10: '' @ [CHR 0x27] @ ''balanced'' @ [CHR 0x27])),
      bad_profile_state)"
  by (simp add: bad_profile_state_def eval_defs Let_def)

text \<open>
  C7. With \<^verbatim>\<open>MMGP_PROFILE=balanced\<close> the first \<^verbatim>\<open>get_runtime\<close> raises the \<open>ValueError\<close>
  that left \<^verbatim>\<open>_apply_mmgp\<close>, after line 74 has stored the new object in the slot: the
  slot is set although the call failed, and the next call returns that object (which
  never had the offload policy applied).
\<close>

theorem C7_slot_set_after_failed_call:
  "fst (get_runtime (example_world True True) bad_profile_state) =
     Inl (Exn ValueError
            (''invalid literal for int() with base 10: '' @ [CHR 0x27] @ ''balanced'' @ [CHR 0x27]))
   \<and> runtime (snd (get_runtime (example_world True True) bad_profile_state)) =
       Some (T2MRuntime_args (example_world True True) bad_profile_state)
   \<and> get_runtime (example_world True True)
        (snd (get_runtime (example_world True True) bad_profile_state)) =
       (Inr (Some (T2MRuntime_args (example_world True True) bad_profile_state)),
        snd (get_runtime (example_world True True) bad_profile_state))"
proof -
  have r: "runtime (snd (get_runtime (example_world True True) bad_profile_state)) =
       Some (T2MRuntime_args (example_world True True) bad_profile_state)"
    by (simp add: bad_profile_state_def eval_defs Let_def)
  have f: "fst (get_runtime (example_world True True) bad_profile_state) =
     Inl (Exn ValueError
            (''invalid literal for int() with base 10: '' @ [CHR 0x27] @ ''balanced'' @ [CHR 0x27]))"
    by (simp add: bad_profile_state_def eval_defs Let_def)
  show ?thesis using r f get_runtime_cached [OF r] by simp
qed

subsection \<open>Helper lemmas on the endpoint\<close>

lemmas tensor_defs = tensor_to_list_def tensor_to_list_calls_def select_batch0_def
  hasattr_cpu_def hasattr_numpy_def py_shape_def py_cpu_def py_numpy_def py_tolist_def
  motion_response_def and_then_def dict_getitem_def shape_getitem_def MOTION_FPS_def
  generate_motion_def call_generate_motion_def

lemma example_motion_response:
  "motion_response example_request example_output = Inr example_response"
  by (simp add: tensor_defs example_output_def example_response_def example_request_def
        upt_conv_Cons)

lemma example_generate:
  "fst (generate_motion generating_world example_request (module_import Map.empty)) = Inr example_response"
  by (simp add: generate_motion_def call_generate_motion_def generating_world_def
        example_motion_response [unfolded example_request_def] eval_defs Let_def)

lemma generate_motion_success:
  assumes "generate_motion w req s = (Inr resp, s')"
  shows "\<exists>h args out. runtime_generate_motion w h args = Inr out
            \<and> arg_duration args = req_duration req
            \<and> motion_response req out = Inr resp"
  using assms
  by (fastforce simp: generate_motion_def call_generate_motion_def
           split: prod.splits sum.splits if_splits option.splits)

lemma and_then_Inr: "and_then m f = Inr r \<Longrightarrow> \<exists>v. m = Inr v \<and> f v = Inr r"
  by (cases m) (simp_all add: and_then_def)

lemma motion_response_frames:
  assumes "motion_response req out = Inr resp"
  shows "\<exists>kp sh. out ''keypoints3d'' = Some kp \<and> py_shape kp = Some sh \<and> 1 < length sh
           \<and> num_frames (resp_motion resp) = int (sh ! 1) \<and> fps (resp_motion resp) = 30"
proof -
  from assms obtain kp where kp: "dict_getitem out ''keypoints3d'' = Inr kp"
    and r1: "and_then (dict_getitem out ''rot6d'') (\<lambda>r6.
     and_then (dict_getitem out ''transl'') (\<lambda>tr.
     and_then (dict_getitem out ''root_rotations_mat'') (\<lambda>rr.
     and_then (shape_getitem kp 1) (\<lambda>n.
     and_then (tensor_to_list kp) (\<lambda>kp_list.
     and_then (tensor_to_list r6) (\<lambda>r6_list.
     and_then (tensor_to_list tr) (\<lambda>tr_list.
     and_then (tensor_to_list rr) (\<lambda>rr_list.
       Inr \<lparr>resp_motion =
              \<lparr>keypoints3d = kp_list, rot6d = r6_list, transl = tr_list,
               root_rotations_mat = rr_list, num_frames = int n, fps = MOTION_FPS\<rparr>,
            resp_meta =
              \<lparr>meta_text = req_text req, meta_duration = req_duration req,
               meta_seed = req_seed req\<rparr>\<rparr>)))))))) = Inr resp"
    unfolding motion_response_def by (blast dest: and_then_Inr)
  from r1 obtain r6 tr rr n where n: "shape_getitem kp 1 = Inr n"
    and r2: "and_then (tensor_to_list kp) (\<lambda>kp_list.
     and_then (tensor_to_list r6) (\<lambda>r6_list.
     and_then (tensor_to_list tr) (\<lambda>tr_list.
     and_then (tensor_to_list rr) (\<lambda>rr_list.
       Inr \<lparr>resp_motion =
              \<lparr>keypoints3d = kp_list, rot6d = r6_list, transl = tr_list,
               root_rotations_mat = rr_list, num_frames = int n, fps = MOTION_FPS\<rparr>,
            resp_meta =
              \<lparr>meta_text = req_text req, meta_duration = req_duration req,
               meta_seed = req_seed req\<rparr>\<rparr>)))) = Inr resp"
    by (blast dest: and_then_Inr)
  from r2 obtain a b c d where
    "resp = \<lparr>resp_motion =
              \<lparr>keypoints3d = a, rot6d = b, transl = c,
               root_rotations_mat = d, num_frames = int n, fps = MOTION_FPS\<rparr>,
            resp_meta =
              \<lparr>meta_text = req_text req, meta_duration = req_duration req,
               meta_seed = req_seed req\<rparr>\<rparr>"
    by (auto dest!: and_then_Inr)
  then have f: "num_frames (resp_motion resp) = int n" "fps (resp_motion resp) = 30"
    by (simp_all add: MOTION_FPS_def)
  from kp have k: "out ''keypoints3d'' = Some kp"
    by (simp add: dict_getitem_def split: option.splits)
  from n obtain sh where "py_shape kp = Some sh" "1 < length sh" "n = sh ! 1"
    by (auto simp: shape_getitem_def split: option.splits if_splits)
  with f k show ?thesis by blast
qed

subsection \<open>Properties of the endpoint\<close>

text \<open>
  C3. Whenever the endpoint returns a response (for any request, so for every valid
  one), the runtime's \<^verbatim>\<open>generate_motion\<close> was called with the request's duration and
  returned a dictionary whose \<^verbatim>\<open>keypoints3d\<close> array has at least two axes; the
  response's \<^verbatim>\<open>num_frames\<close> is the length of axis 1 of that array and its \<^verbatim>\<open>fps\<close> is
  30, whatever the duration.
\<close>

theorem C3_num_frames_and_fps:
  assumes "generate_motion w req s = (Inr resp, s')"
  shows "\<exists>h args out kp sh.
           runtime_generate_motion w h args = Inr out \<and> arg_duration args = req_duration req
         \<and> out ''keypoints3d'' = Some kp \<and> py_shape kp = Some sh \<and> 1 < length sh
         \<and> num_frames (resp_motion resp) = int (sh ! 1)
         \<and> fps (resp_motion resp) = 30"
proof -
  from generate_motion_success [OF assms] obtain h args out where
    g: "runtime_generate_motion w h args = Inr out" "arg_duration args = req_duration req"
    and m: "motion_response req out = Inr resp" by blast
  from motion_response_frames [OF m] g show ?thesis by blast
qed

theorem C3_num_frames_and_fps_witness:
  "generate_motion generating_world example_request (module_import Map.empty) =
     (Inr example_response,
      snd (generate_motion generating_world example_request (module_import Map.empty)))
   \<and> (\<exists>h args out kp sh.
         runtime_generate_motion generating_world h args = Inr out
       \<and> arg_duration args = req_duration example_request
       \<and> out ''keypoints3d'' = Some kp \<and> py_shape kp = Some sh \<and> 1 < length sh
       \<and> num_frames (resp_motion example_response) = int (sh ! 1)
       \<and> fps (resp_motion example_response) = 30)
   \<and> num_frames (resp_motion example_response) = 2"
proof -
  have e: "generate_motion generating_world example_request (module_import Map.empty) =
     (Inr example_response,
      snd (generate_motion generating_world example_request (module_import Map.empty)))"
    using example_generate by (simp add: prod_eq_iff)
  have n: "num_frames (resp_motion example_response) = 2"
    by (simp add: example_response_def)
  from C3_num_frames_and_fps [OF e] e n show ?thesis by blast
qed

subsection \<open>Properties of the serializer\<close>

lemma tolist_first:
  assumes "0 < n"
  shows "\<exists>vs. tolist (n # sh) xs = Seq (tolist sh (take (prod_list sh) xs) # vs)
              \<and> length vs = n - 1"
proof -
  have "[0..<n] = 0 # [Suc 0..<n]" using assms by (simp add: upt_conv_Cons)
  then show ?thesis by simp
qed

lemma first_slice_wf:
  "wf_array a \<Longrightarrow> shape a = n # sh \<Longrightarrow> 0 < n \<Longrightarrow>
   wf_array (Array sh (take (prod_list sh) (elems a)))"
  by (simp add: wf_array_def)

lemma tensor_to_list_calls_Ndarray:
  "shape a = n # sh \<Longrightarrow> 0 < n \<Longrightarrow>
   tensor_to_list_calls (Ndarray a) =
     ([Call_getitem0 (Ndarray a), Call_tolist (Ndarray (Array sh (take (prod_list sh) (elems a))))],
      Inr (tolist sh (take (prod_list sh) (elems a))))"
  by (simp add: tensor_to_list_calls_def hasattr_cpu_def hasattr_numpy_def select_batch0_def
        py_tolist_def)

lemma tensor_to_list_calls_Tensor:
  "shape a = n # sh \<Longrightarrow> 0 < n \<Longrightarrow>
   tensor_to_list_calls (Tensor d None a) =
     ([Call_cpu (Tensor d None a), Call_numpy (Tensor CPU None a), Call_getitem0 (Ndarray a),
       Call_tolist (Ndarray (Array sh (take (prod_list sh) (elems a))))],
      Inr (tolist sh (take (prod_list sh) (elems a))))"
  by (simp add: tensor_to_list_calls_def hasattr_cpu_def hasattr_numpy_def select_batch0_def
        py_tolist_def py_cpu_def py_numpy_def)

lemma tensor_to_list_calls_refused:
  "tensor_to_list_calls (Tensor d (Some e) a) =
     ([Call_cpu (Tensor d (Some e) a), Call_numpy (Tensor CPU (Some e) a)], Inl e)"
  by (simp add: tensor_to_list_calls_def hasattr_cpu_def hasattr_numpy_def py_cpu_def py_numpy_def)

lemma tensor_to_list_calls_PyList:
  "tensor_to_list_calls (PyList l) = ([Call_tolist (PyList l)], Inl (no_attribute ''list'' ''tolist''))"
  by (simp add: tensor_to_list_calls_def hasattr_cpu_def hasattr_numpy_def select_batch0_def
        py_tolist_def py_type_name_def)

text \<open>
  C8, as stated, fails on its last part: a plain nested list has no \<^verbatim>\<open>tolist\<close>
  method, so \<^verbatim>\<open>_tensor_to_list\<close> raises \<open>AttributeError\<close> on \<^verbatim>\<open>[[1, 2]]\<close> instead of
  returning it.
\<close>

theorem C8_plain_list_counterexample:
  "tensor_to_list (PyList [Seq [Num (1::int), Num 2]]) =
     Inl (Exn AttributeError
            (CHR 0x27 # ''list'' @ CHR 0x27 # '' object has no attribute '' @
             CHR 0x27 # ''tolist'' @ [CHR 0x27]))
   \<and> tensor_to_list (PyList [Seq [Num (1::int), Num 2]]) \<noteq> Inr (Seq [Seq [Num 1, Num 2]])"
  by (simp add: tensor_to_list_def tensor_to_list_calls_PyList no_attribute_def)

text \<open>
  C8, as amended. Let \<open>x\<close> be a host array, or a tensor that \<^verbatim>\<open>numpy()\<close> accepts once it
  is in host memory, whose first axis has length \<open>n > 0\<close>. Then \<^verbatim>\<open>_tensor_to_list(x)\<close>
  returns the element at index 0 of the nested list \<^verbatim>\<open>x.tolist()\<close> (which has \<open>n\<close>
  elements: index 0 is selected whatever the batch size). On a tensor, whatever its
  device, the function calls \<^verbatim>\<open>cpu()\<close> first, then \<^verbatim>\<open>numpy()\<close> on the tensor in host
  memory, then \<^verbatim>\<open>[0]\<close> and \<^verbatim>\<open>tolist()\<close> on the host array; on a host array it calls
  \<^verbatim>\<open>[0]\<close> and \<^verbatim>\<open>tolist()\<close> only. A plain list is not passed through: the one call
  made on it is \<^verbatim>\<open>tolist()\<close>, which raises \<open>AttributeError\<close>.
\<close>

theorem C8_batch_index_0:
  assumes "x = Tensor d None a \<or> x = Ndarray a" and "shape a = n # sh" and "0 < n"
  shows "(\<exists>v vs. py_tolist x = Inr (Seq (v # vs)) \<and> length vs = n - 1
                \<and> tensor_to_list x = Inr v)
     \<and> fst (tensor_to_list_calls (Tensor d None a)) =
         [Call_cpu (Tensor d None a), Call_numpy (Tensor CPU None a), Call_getitem0 (Ndarray a),
          Call_tolist (Ndarray (Array sh (take (prod_list sh) (elems a))))]
     \<and> fst (tensor_to_list_calls (Ndarray a)) =
         [Call_getitem0 (Ndarray a),
          Call_tolist (Ndarray (Array sh (take (prod_list sh) (elems a))))]
     \<and> fst (tensor_to_list_calls (PyList l)) = [Call_tolist (PyList l)]
     \<and> tensor_to_list (PyList l) =
         Inl (Exn AttributeError
                (CHR 0x27 # ''list'' @ CHR 0x27 # '' object has no attribute '' @
                 CHR 0x27 # ''tolist'' @ [CHR 0x27]))"
proof (intro conjI)
  from tolist_first [OF assms(3), of sh "elems a"] obtain vs where
    vs: "tolist (n # sh) (elems a) = Seq (tolist sh (take (prod_list sh) (elems a)) # vs)"
      "length vs = n - 1" by blast
  have t: "py_tolist x = Inr (tolist (n # sh) (elems a))"
    using assms(1,2) by (auto simp: py_tolist_def)
  have r: "tensor_to_list x = Inr (tolist sh (take (prod_list sh) (elems a)))"
    using assms
    by (auto simp: tensor_to_list_def tensor_to_list_calls_Tensor tensor_to_list_calls_Ndarray)
  show "\<exists>v vs. py_tolist x = Inr (Seq (v # vs)) \<and> length vs = n - 1 \<and> tensor_to_list x = Inr v"
    using vs t r by simp
  show "fst (tensor_to_list_calls (Tensor d None a)) =
         [Call_cpu (Tensor d None a), Call_numpy (Tensor CPU None a), Call_getitem0 (Ndarray a),
          Call_tolist (Ndarray (Array sh (take (prod_list sh) (elems a))))]"
    by (simp add: tensor_to_list_calls_Tensor [OF assms(2,3)])
  show "fst (tensor_to_list_calls (Ndarray a)) =
         [Call_getitem0 (Ndarray a),
          Call_tolist (Ndarray (Array sh (take (prod_list sh) (elems a))))]"
    by (simp add: tensor_to_list_calls_Ndarray [OF assms(2,3)])
  show "fst (tensor_to_list_calls (PyList l)) = [Call_tolist (PyList l)]"
    by (simp add: tensor_to_list_calls_PyList)
  show "tensor_to_list (PyList l) =
         Inl (Exn AttributeError
                (CHR 0x27 # ''list'' @ CHR 0x27 # '' object has no attribute '' @
                 CHR 0x27 # ''tolist'' @ [CHR 0x27]))"
    by (simp add: tensor_to_list_def tensor_to_list_calls_PyList no_attribute_def)
qed

theorem C8_batch_index_0_witness:
  "(Tensor CUDA None (Array [2, 2] [1, 2, 3, 4 :: int]) = Tensor CUDA None (Array [2, 2] [1, 2, 3, 4])
      \<or> Tensor CUDA None (Array [2, 2] [1, 2, 3, 4 :: int]) = Ndarray (Array [2, 2] [1, 2, 3, 4]))
   \<and> shape (Array [2, 2] [1, 2, 3, 4 :: int]) = 2 # [2] \<and> (0::nat) < 2
   \<and> py_tolist (Tensor CUDA None (Array [2, 2] [1, 2, 3, 4 :: int])) =
       Inr (Seq [Seq [Num 1, Num 2], Seq [Num 3, Num 4]])
   \<and> tensor_to_list (Tensor CUDA None (Array [2, 2] [1, 2, 3, 4 :: int])) = Inr (Seq [Num 1, Num 2])
   \<and> fst (tensor_to_list_calls (Tensor CUDA None (Array [2, 2] [1, 2, 3, 4 :: int]))) =
       [Call_cpu (Tensor CUDA None (Array [2, 2] [1, 2, 3, 4])),
        Call_numpy (Tensor CPU None (Array [2, 2] [1, 2, 3, 4])),
        Call_getitem0 (Ndarray (Array [2, 2] [1, 2, 3, 4])),
        Call_tolist (Ndarray (Array [2] [1, 2]))]"
proof -
  have h1: "Tensor CUDA None (Array [2, 2] [1, 2, 3, 4 :: int]) = Tensor CUDA None (Array [2, 2] [1, 2, 3, 4])
      \<or> Tensor CUDA None (Array [2, 2] [1, 2, 3, 4 :: int]) = Ndarray (Array [2, 2] [1, 2, 3, 4])"
    by simp
  have h2: "shape (Array [2, 2] [1, 2, 3, 4 :: int]) = 2 # [2]" by simp
  have h3: "(0::nat) < 2" by simp
  have t: "py_tolist (Tensor CUDA None (Array [2, 2] [1, 2, 3, 4 :: int])) =
       Inr (Seq [Seq [Num 1, Num 2], Seq [Num 3, Num 4]])"
    by (simp add: py_tolist_def upt_conv_Cons)
  note c = C8_batch_index_0 [OF h1 h2 h3, where l = "[]"]
  from c obtain v vs where
    "py_tolist (Tensor CUDA None (Array [2, 2] [1, 2, 3, 4 :: int])) = Inr (Seq (v # vs))"
    "tensor_to_list (Tensor CUDA None (Array [2, 2] [1, 2, 3, 4 :: int])) = Inr v"
    by blast
  with t have r: "tensor_to_list (Tensor CUDA None (Array [2, 2] [1, 2, 3, 4 :: int])) =
      Inr (Seq [Num 1, Num 2])"
    by simp
  from c have k: "fst (tensor_to_list_calls (Tensor CUDA None (Array [2, 2] [1, 2, 3, 4 :: int]))) =
       [Call_cpu (Tensor CUDA None (Array [2, 2] [1, 2, 3, 4])),
        Call_numpy (Tensor CPU None (Array [2, 2] [1, 2, 3, 4])),
        Call_getitem0 (Ndarray (Array [2, 2] [1, 2, 3, 4])),
        Call_tolist (Ndarray (Array [2] [1, 2]))]"
    by (elim conjE) simp
  from h1 h2 h3 t r k show ?thesis by blast
qed

end
